theory Spec2Isabelle
  imports Complex_Main "HOL-Library.Sublist"
begin

section \<open>Data model: pandas frames as the script uses them\<close>

text \<open>
  The script \<^verbatim>\<open>app_mapa_geo.py\<close> works on one pandas DataFrame. A cell of a frame read
  by \<^verbatim>\<open>pd.read_csv\<close> is a missing value (NaN), a number, or a string of an object
  column. Numbers are idealised as reals: the script only compares them (\<^verbatim>\<open>>= 0\<close>,
  \<^verbatim>\<open>min\<close>, \<^verbatim>\<open>max\<close>, \<^verbatim>\<open>max_val > min_val\<close>) and averages the coordinates.
  A row gives a cell for every column name; only the names listed in \<open>columns\<close> exist,
  and reading any other name raises \<^verbatim>\<open>KeyError\<close>.
\<close>

datatype cell = NaN | Num real | Str string

type_synonym row = "string \<Rightarrow> cell"

record frame =
  columns :: "string list"
  rows :: "row list"

datatype error = FileNotFoundError | ParserError | KeyError string | TypeError

subsection \<open>The pandas operations the script calls\<close>

text \<open>\<^verbatim>\<open>df[c]\<close>: the column as a series, or \<^verbatim>\<open>KeyError\<close>.\<close>

definition getcol :: "frame \<Rightarrow> string \<Rightarrow> error + cell list" where
  "getcol df c = (if c \<in> set (columns df) then Inr (map (\<lambda>r. r c) (rows df)) else Inl (KeyError c))"

text \<open>\<^verbatim>\<open>df[c] = series\<close>: overwrites the column row by row (appends the name when new).\<close>

definition setcol :: "frame \<Rightarrow> string \<Rightarrow> cell list \<Rightarrow> frame" where
  "setcol df c vs =
     \<lparr>columns = (if c \<in> set (columns df) then columns df else columns df @ [c]),
      rows = map (\<lambda>(r, v). r(c := v)) (zip (rows df) vs)\<rparr>"

text \<open>
  \<^verbatim>\<open>pd.to_numeric(series, errors='coerce')\<close>: a number stays, a missing value stays
  missing, a string becomes the number it spells or NaN. The string parser belongs to
  pandas; it is the parameter \<open>parse\<close>.
\<close>

definition to_numeric1 :: "(string \<Rightarrow> real option) \<Rightarrow> cell \<Rightarrow> cell" where
  "to_numeric1 parse c =
     (case c of NaN \<Rightarrow> NaN | Num v \<Rightarrow> Num v
      | Str s \<Rightarrow> (case parse s of None \<Rightarrow> NaN | Some v \<Rightarrow> Num v))"

definition is_num :: "cell \<Rightarrow> bool" where
  "is_num c = (case c of Num _ \<Rightarrow> True | _ \<Rightarrow> False)"

definition to_numeric :: "(string \<Rightarrow> real option) \<Rightarrow> cell list \<Rightarrow> cell list" where
  "to_numeric parse vs = map (to_numeric1 parse) vs"

text \<open>\<^verbatim>\<open>df[mask]\<close>: boolean indexing keeps the rows whose mask entry is true, in order.\<close>

definition select_rows :: "frame \<Rightarrow> bool list \<Rightarrow> frame" where
  "select_rows df bs = \<lparr>columns = columns df, rows = map fst (filter snd (zip (rows df) bs))\<rparr>"

text \<open>
  \<^verbatim>\<open>df.dropna(subset=cs)\<close>: \<^verbatim>\<open>KeyError\<close> when a name of \<open>cs\<close> is no column; otherwise
  the rows with no NaN in the columns \<open>cs\<close>.
\<close>

definition dropna :: "frame \<Rightarrow> string list \<Rightarrow> error + frame" where
  "dropna df cs =
     (case filter (\<lambda>c. c \<notin> set (columns df)) cs of
        c # _ \<Rightarrow> Inl (KeyError c)
      | [] \<Rightarrow> Inr \<lparr>columns = columns df, rows = filter (\<lambda>r. list_all (\<lambda>c. r c \<noteq> NaN) cs) (rows df)\<rparr>)"

text \<open>\<^verbatim>\<open>series.isin(values)\<close>.\<close>

definition isin :: "cell list \<Rightarrow> cell list \<Rightarrow> bool list" where
  "isin vs values = map (\<lambda>v. v \<in> set values) vs"

text \<open>
  \<^verbatim>\<open>series >= 0\<close>: false on NaN, \<^verbatim>\<open>TypeError\<close> when the series holds a string.
\<close>

definition nonneg :: "cell \<Rightarrow> bool" where
  "nonneg v = (case v of Num x \<Rightarrow> 0 \<le> x | _ \<Rightarrow> False)"

definition ge0 :: "cell list \<Rightarrow> error + bool list" where
  "ge0 vs =
     (if list_ex (\<lambda>v. case v of Str _ \<Rightarrow> True | _ \<Rightarrow> False) vs then Inl TypeError
      else Inr (map nonneg vs))"

section \<open>The loader: \<^verbatim>\<open>load_data\<close>\<close>

text \<open>
  The file system maps a path to the text of the file there. \<^verbatim>\<open>pd.read_csv\<close> raises
  \<^verbatim>\<open>FileNotFoundError\<close> when there is no file at the path; the CSV parser itself is
  pandas' and is the parameter \<open>csv\<close> (\<open>None\<close>: the text does not parse).
\<close>

type_synonym filesystem = "string \<rightharpoonup> string"

definition read_csv :: "(string \<Rightarrow> frame option) \<Rightarrow> filesystem \<Rightarrow> string \<Rightarrow> error + frame" where
  "read_csv csv fs file_path =
     (case fs file_path of
        None \<Rightarrow> Inl FileNotFoundError
      | Some txt \<Rightarrow> (case csv txt of None \<Rightarrow> Inl ParserError | Some df \<Rightarrow> Inr df))"

text \<open>The body of the \<^verbatim>\<open>try\<close> block of \<^verbatim>\<open>load_data\<close> (lines 22 to 26).\<close>

definition load_body ::
  "(string \<Rightarrow> frame option) \<Rightarrow> (string \<Rightarrow> real option) \<Rightarrow> filesystem \<Rightarrow> string \<Rightarrow> error + frame" where
  "load_body csv parse fs file_path =
     (case read_csv csv fs file_path of Inl e \<Rightarrow> Inl e | Inr df \<Rightarrow>
      (case getcol df ''latitude'' of Inl e \<Rightarrow> Inl e | Inr lat \<Rightarrow>
       let df1 = setcol df ''latitude'' (to_numeric parse lat) in
       (case getcol df1 ''longitude'' of Inl e \<Rightarrow> Inl e | Inr lon \<Rightarrow>
        let df2 = setcol df1 ''longitude'' (to_numeric parse lon) in
        dropna df2 [''latitude'', ''longitude'', ''tipo_muestra''])))"

text \<open>What one run of the script shows through Streamlit.\<close>

record colormap =
  vmin :: real
  vmax :: real
  caption :: string

record marker =
  location :: "cell \<times> cell"
  color :: string
  popup :: "cell \<times> cell \<times> cell"

record folium_map =
  center :: "cell \<times> cell"
  legend :: "colormap option"
  markers :: "marker list"

datatype ui = StError string | StWarningSelect | StWarningNoData string | StFolium folium_map

text \<open>
  \<^verbatim>\<open>load_data\<close>: \<^verbatim>\<open>FileNotFoundError\<close> is caught, \<^verbatim>\<open>st.error\<close> is called and \<^verbatim>\<open>None\<close>
  is returned; every other exception leaves the function. The result is what was shown
  together with the value returned. The decorator \<^verbatim>\<open>st.cache_data\<close> memoises the
  function by its argument; this is the function it wraps, what a cache miss computes.
\<close>

definition load_data ::
  "(string \<Rightarrow> frame option) \<Rightarrow> (string \<Rightarrow> real option) \<Rightarrow> filesystem \<Rightarrow> string
     \<Rightarrow> error + (ui list \<times> frame option)" where
  "load_data csv parse fs file_path =
     (case load_body csv parse fs file_path of
        Inr df \<Rightarrow> Inr ([], Some df)
      | Inl FileNotFoundError \<Rightarrow> Inr ([StError file_path], None)
      | Inl e \<Rightarrow> Inl e)"

section \<open>The element catalog (lines 38 to 59)\<close>

definition element_columns :: "string list" where
  "element_columns =
     [''Li_ppm2'', ''Cu_ppm2'', ''Co_ppm2'', ''Ni_ppm2'', ''La_ppm2'', ''Ce_ppm2'',
      ''Pr_ppm2'', ''Nd_ppm2'', ''Sm_ppm2'', ''Eu_ppm2'', ''Gd_ppm2'', ''Tb_ppm2'',
      ''Dy_ppm2'', ''Ho_ppm2'', ''Er_ppm2'', ''Tm_ppm2'', ''Yb_ppm2'', ''Lu_ppm2'',
      ''Sc_ppm2'', ''Y_ppm2'']"

text \<open>\<^verbatim>\<open>e.split('_')[0]\<close>: the text before the first underscore (all of it when there is none).\<close>

definition split0 :: "string \<Rightarrow> string" where
  "split0 e = takeWhile (\<lambda>c. c \<noteq> CHR ''_'') e"

definition element_names :: "string list" where
  "element_names = map split0 element_columns"

text \<open>\<^verbatim>\<open>f"{selected_element_name}_ppm2"\<close>\<close>

definition selected_element_col :: "string \<Rightarrow> string" where
  "selected_element_col selected_element_name = selected_element_name @ ''_ppm2''"

section \<open>The filter (lines 75 to 80)\<close>

text \<open>
  The frames are objects: \<^verbatim>\<open>df_filtered[col] = ...\<close> and \<^verbatim>\<open>dropna(inplace=True)\<close>
  change the object a variable refers to, \<^verbatim>\<open>df[mask]\<close> and \<^verbatim>\<open>.copy()\<close> make new ones.
  The store lists the objects, an object's identity is its position, and a variable holds
  a position. The store is returned on every path, also when an exception is raised.
\<close>

type_synonym store = "frame list"

definition alloc :: "store \<Rightarrow> frame \<Rightarrow> store \<times> nat" where
  "alloc st f = (st @ [f], length st)"

definition filter_section ::
  "(string \<Rightarrow> real option) \<Rightarrow> store \<Rightarrow> nat \<Rightarrow> string \<Rightarrow> cell list \<Rightarrow> store \<times> (error + nat)" where
  "filter_section parse st df element_col selected_sample_types =
     (case getcol (st ! df) ''tipo_muestra'' of Inl e \<Rightarrow> (st, Inl e) | Inr tipo \<Rightarrow>
      let (st1, sel) = alloc st (select_rows (st ! df) (isin tipo selected_sample_types));
          (st2, df_filtered) = alloc st1 (st1 ! sel)
      in
      (case getcol (st2 ! df_filtered) element_col of Inl e \<Rightarrow> (st2, Inl e) | Inr ser \<Rightarrow>
       let st3 = st2[df_filtered := setcol (st2 ! df_filtered) element_col (to_numeric parse ser)] in
       (case dropna (st3 ! df_filtered) [element_col] of Inl e \<Rightarrow> (st3, Inl e) | Inr d \<Rightarrow>
        let st4 = st3[df_filtered := d] in
        (case getcol (st4 ! df_filtered) element_col of Inl e \<Rightarrow> (st4, Inl e) | Inr ser' \<Rightarrow>
         (case ge0 ser' of Inl e \<Rightarrow> (st4, Inl e) | Inr bs \<Rightarrow>
          let (st5, df_filtered') = alloc st4 (select_rows (st4 ! df_filtered) bs)
          in (st5, Inr df_filtered'))))))"

text \<open>
  The rows the specification's filter keeps: sample type among the selected ones, element
  value coerced to a number, that number not negative; each kept row with the coerced
  value in the element's column.
\<close>

definition filter_spec :: "(string \<Rightarrow> real option) \<Rightarrow> string \<Rightarrow> cell list \<Rightarrow> row list \<Rightarrow> row list" where
  "filter_spec parse e S rs =
     map (\<lambda>r. r(e := to_numeric1 parse (r e)))
       (filter (\<lambda>r. r ''tipo_muestra'' \<in> set S \<and> is_num (to_numeric1 parse (r e)) \<and>
                    nonneg (to_numeric1 parse (r e))) rs)"

section \<open>The map (lines 88 to 129)\<close>

text \<open>
  \<^verbatim>\<open>Series.min()\<close>, \<^verbatim>\<open>max()\<close> and \<^verbatim>\<open>mean()\<close> of a float column skip NaN and give NaN
  (here \<open>None\<close>, or the cell \<open>NaN\<close>) when no number is left.
\<close>

definition nums :: "cell list \<Rightarrow> real list" where
  "nums vs = List.map_filter (\<lambda>v. case v of Num x \<Rightarrow> Some x | _ \<Rightarrow> None) vs"

definition series_min :: "cell list \<Rightarrow> real option" where
  "series_min vs = (case nums vs of [] \<Rightarrow> None | x # xs \<Rightarrow> Some (fold min xs x))"

definition series_max :: "cell list \<Rightarrow> real option" where
  "series_max vs = (case nums vs of [] \<Rightarrow> None | x # xs \<Rightarrow> Some (fold max xs x))"

definition series_mean :: "cell list \<Rightarrow> cell" where
  "series_mean vs = (case nums vs of [] \<Rightarrow> NaN | x # xs \<Rightarrow> Num (sum_list (x # xs) / real (length (x # xs))))"

text \<open>
  Lines 105 to 108: \<^verbatim>\<open>if max_val > min_val: colormap = linear.YlOrRd_09.scale(min_val,
  max_val); ...; m.add_child(colormap)\<close>. The variable \<^verbatim>\<open>colormap\<close> exists afterwards only
  when the branch ran; a comparison with NaN is false.
\<close>

definition make_colormap :: "string \<Rightarrow> real option \<Rightarrow> real option \<Rightarrow> colormap option" where
  "make_colormap selected_element_name min_val max_val =
     (case (min_val, max_val) of
        (Some lo, Some hi) \<Rightarrow>
          if hi > lo then Some \<lparr>vmin = lo, vmax = hi, caption = selected_element_name\<rparr> else None
      | _ \<Rightarrow> None)"

text \<open>
  Line 113: \<^verbatim>\<open>colormap(concentration) if 'colormap' in locals() and max_val > min_val
  else 'blue'\<close>. Calling the colormap is branca's code: the parameter \<open>cmap\<close>, given the
  two ends of the scale and the value, returns the colour string.
\<close>

definition point_color ::
  "(real \<Rightarrow> real \<Rightarrow> cell \<Rightarrow> string) \<Rightarrow> colormap option \<Rightarrow> real option \<Rightarrow> real option \<Rightarrow> cell \<Rightarrow> string" where
  "point_color cmap cm min_val max_val concentration =
     (case (cm, min_val, max_val) of
        (Some c, Some lo, Some hi) \<Rightarrow>
          if hi > lo then cmap (vmin c) (vmax c) concentration else ''blue''
      | _ \<Rightarrow> ''blue'')"

text \<open>
  Lines 88 to 129 for a filtered frame that is not empty. \<^verbatim>\<open>row['Municipio']\<close> raises
  \<^verbatim>\<open>KeyError\<close> when the file has no such column. The popup keeps the three values it
  prints, not the HTML text, and the caption of the colormap keeps the element's name,
  not the sentence around it. The tile layer and the layer control are fixed and left out.
\<close>

definition render ::
  "(real \<Rightarrow> real \<Rightarrow> cell \<Rightarrow> string) \<Rightarrow> frame \<Rightarrow> string \<Rightarrow> error + folium_map" where
  "render cmap df_filtered selected_element_name =
     (let col = selected_element_col selected_element_name in
      (case getcol df_filtered ''latitude'' of Inl e \<Rightarrow> Inl e | Inr lat \<Rightarrow>
       (case getcol df_filtered ''longitude'' of Inl e \<Rightarrow> Inl e | Inr lon \<Rightarrow>
        (case getcol df_filtered col of Inl e \<Rightarrow> Inl e | Inr ser \<Rightarrow>
         let min_val = series_min ser; max_val = series_max ser;
             cm = make_colormap selected_element_name min_val max_val
         in
         if ''Municipio'' \<notin> set (columns df_filtered) \<and> rows df_filtered \<noteq> []
         then Inl (KeyError ''Municipio'')
         else Inr \<lparr>center = (series_mean lat, series_mean lon), legend = cm,
                   markers = map (\<lambda>row.
                       \<lparr>location = (row ''latitude'', row ''longitude''),
                        color = point_color cmap cm min_val max_val (row col),
                        popup = (row ''Municipio'', row ''tipo_muestra'', row col)\<rparr>)
                     (rows df_filtered)\<rparr>))))"

section \<open>One run of the script (lines 34 to 135)\<close>

text \<open>
  The two widgets return what the user picked: \<open>selected_element_name\<close> from the
  select box over \<open>element_names\<close>, \<open>selected_sample_types\<close> from the multi-select over
  the distinct values of \<^verbatim>\<open>tipo_muestra\<close> (line 47 reads that column; the order of the
  options is not modelled). The title, the introduction and the side bar's fixed texts are
  the same in every run and left out. The run shows a list of elements or ends in an
  exception.
\<close>

definition script ::
  "(string \<Rightarrow> frame option) \<Rightarrow> (string \<Rightarrow> real option) \<Rightarrow> (real \<Rightarrow> real \<Rightarrow> cell \<Rightarrow> string) \<Rightarrow>
   filesystem \<Rightarrow> string \<Rightarrow> string \<Rightarrow> cell list \<Rightarrow> error + ui list" where
  "script csv parse cmap fs data_file selected_element_name selected_sample_types =
     (case load_data csv parse fs data_file of
        Inl e \<Rightarrow> Inl e
      | Inr (shown, None) \<Rightarrow> Inr shown
      | Inr (shown, Some df) \<Rightarrow>
          (case getcol df ''tipo_muestra'' of Inl e \<Rightarrow> Inl e | Inr _ \<Rightarrow>
           if selected_sample_types = [] then Inr (shown @ [StWarningSelect])
           else
             (case filter_section parse [df] 0 (selected_element_col selected_element_name)
                     selected_sample_types of
                (_, Inl e) \<Rightarrow> Inl e
              | (st, Inr df_filtered) \<Rightarrow>
                  if rows (st ! df_filtered) = []
                  then Inr (shown @ [StWarningNoData selected_element_name])
                  else (case render cmap (st ! df_filtered) selected_element_name of
                          Inl e \<Rightarrow> Inl e
                        | Inr m \<Rightarrow> Inr (shown @ [StFolium m])))))"

section \<open>The colour scale of the specification\<close>







section \<open>Sample data\<close>

text \<open>
  A small file for the concrete checks: three raw rows, one with a latitude that is no
  number, one with no sample type. The sample parser reads the three number strings
  that occur in it.
\<close>

definition parse_sample :: "string \<Rightarrow> real option" where
  "parse_sample s =
     (if s = ''4.5'' then Some 4.5 else if s = ''5'' then Some 5
      else if s = ''-1'' then Some (- 1) else None)"

definition blank :: row where
  "blank = (\<lambda>_. NaN)"

definition raw_sample :: frame where
  "raw_sample =
     \<lparr>columns = [''latitude'', ''longitude'', ''tipo_muestra'', ''Municipio'', ''Li_ppm2''],
      rows =
        [blank(''latitude'' := Str ''4.5'', ''longitude'' := Num (- 74),
               ''tipo_muestra'' := Str ''core'', ''Li_ppm2'' := Str ''5''),
         blank(''latitude'' := Str ''north'', ''longitude'' := Num (- 73),
               ''tipo_muestra'' := Str ''soil'', ''Municipio'' := Str ''Tunja'',
               ''Li_ppm2'' := Str ''-1''),
         blank(''latitude'' := Num 6, ''longitude'' := Num (- 75),
               ''Municipio'' := Str ''Cali'', ''Li_ppm2'' := Str ''5'')]\<rparr>"

definition fs_sample :: filesystem where
  "fs_sample = [''df_transicion.csv'' \<mapsto> ''text'']"

text \<open>
  A clean table with the three rows of the specification's scenario (core with 5, soil
  with -1, core with a value that is no number), a table with one valid row, and a
  colormap that always answers the same colour.
\<close>

definition clean_sample :: frame where
  "clean_sample =
     \<lparr>columns = [''latitude'', ''longitude'', ''tipo_muestra'', ''Municipio'', ''Li_ppm2''],
      rows =
        [blank(''latitude'' := Num 4.5, ''longitude'' := Num (- 74),
               ''tipo_muestra'' := Str ''core'', ''Municipio'' := Str ''Tunja'',
               ''Li_ppm2'' := Str ''5''),
         blank(''latitude'' := Num 5, ''longitude'' := Num (- 73),
               ''tipo_muestra'' := Str ''soil'', ''Municipio'' := Str ''Cali'',
               ''Li_ppm2'' := Str ''-1''),
         blank(''latitude'' := Num 6, ''longitude'' := Num (- 75),
               ''tipo_muestra'' := Str ''core'', ''Municipio'' := Str ''Neiva'',
               ''Li_ppm2'' := Str ''bad'')]\<rparr>"

definition single_sample :: frame where
  "single_sample =
     \<lparr>columns = [''latitude'', ''longitude'', ''tipo_muestra'', ''Municipio'', ''Li_ppm2''],
      rows =
        [blank(''latitude'' := Num 4.5, ''longitude'' := Num (- 74),
               ''tipo_muestra'' := Str ''core'', ''Municipio'' := Str ''Tunja'',
               ''Li_ppm2'' := Num 5)]\<rparr>"

definition cmap_sample :: "real \<Rightarrow> real \<Rightarrow> cell \<Rightarrow> string" where
  "cmap_sample lo hi v = ''#ffffccff''"


section \<open>Facts about the pandas operations\<close>

lemma zip_map_same: "map (\<lambda>(r, v). g r v) (zip xs (map h xs)) = map (\<lambda>r. g r (h r)) xs"
  by (induction xs) auto

lemma select_rows_map: "map fst (filter snd (zip xs (map P xs))) = filter P xs"
  by (induction xs) auto

lemma getcol_Inr: "c \<in> set (columns df) \<Longrightarrow> getcol df c = Inr (map (\<lambda>r. r c) (rows df))"
  by (simp add: getcol_def)

lemma setcol_to_numeric:
  "setcol df c (to_numeric parse (map (\<lambda>r. r c) (rows df))) =
     \<lparr>columns = (if c \<in> set (columns df) then columns df else columns df @ [c]),
      rows = map (\<lambda>r. r(c := to_numeric1 parse (r c))) (rows df)\<rparr>"
  by (simp add: setcol_def to_numeric_def comp_def
      zip_map_same [where h = "\<lambda>r. to_numeric1 parse (r c)" and g = "\<lambda>r v. r(c := v)", simplified])

lemma dropna_Inr:
  "set cs \<subseteq> set (columns df) \<Longrightarrow>
   dropna df cs =
     Inr \<lparr>columns = columns df, rows = filter (\<lambda>r. list_all (\<lambda>c. r c \<noteq> NaN) cs) (rows df)\<rparr>"
  by (simp add: dropna_def filter_empty_conv subset_iff split: list.splits)

lemma to_numeric1_Num: "(to_numeric1 parse c \<noteq> NaN) = is_num (to_numeric1 parse c)"
  by (auto simp: to_numeric1_def is_num_def split: cell.splits option.splits)

section \<open>The loader\<close>

text \<open>
  C2. For a file that exists and parses to a frame \<open>df\<close> with the columns
  \<^verbatim>\<open>latitude\<close>, \<^verbatim>\<open>longitude\<close> and \<^verbatim>\<open>tipo_muestra\<close>, \<open>load_data\<close> returns a clean
  table whose rows are, in order, exactly the rows of \<open>df\<close> whose latitude coerces to a
  number, whose longitude coerces to a number and whose sample type is present (each with
  its two coordinates replaced by the coerced numbers). So every retained row has a
  numeric latitude, a numeric longitude and a sample type, and no other field decides
  whether a row stays.
\<close>

theorem load_data_retains_iff:
  assumes "fs p = Some txt" and "csv txt = Some df"
    and "{''latitude'', ''longitude'', ''tipo_muestra''} \<subseteq> set (columns df)"
  shows "\<exists>clean. load_data csv parse fs p = Inr ([], Some clean) \<and>
           columns clean = columns df \<and>
           rows clean =
             map (\<lambda>r. r(''latitude'' := to_numeric1 parse (r ''latitude''),
                        ''longitude'' := to_numeric1 parse (r ''longitude'')))
               (filter (\<lambda>r. is_num (to_numeric1 parse (r ''latitude'')) \<and>
                            is_num (to_numeric1 parse (r ''longitude'')) \<and>
                            r ''tipo_muestra'' \<noteq> NaN) (rows df)) \<and>
           (\<forall>r \<in> set (rows clean).
              is_num (r ''latitude'') \<and> is_num (r ''longitude'') \<and>
              r ''tipo_muestra'' \<noteq> NaN)"
proof -
  let ?df1 = "setcol df ''latitude'' (to_numeric parse (map (\<lambda>r. r ''latitude'') (rows df)))"
  have r: "read_csv csv fs p = Inr df"
    using assms by (simp add: read_csv_def)
  have c1: "columns ?df1 = columns df"
    using assms(3) by (simp add: setcol_to_numeric)
  have r1: "rows ?df1 = map (\<lambda>r. r(''latitude'' := to_numeric1 parse (r ''latitude''))) (rows df)"
    by (simp add: setcol_to_numeric)
  let ?df2 = "setcol ?df1 ''longitude'' (to_numeric parse (map (\<lambda>r. r ''longitude'') (rows ?df1)))"
  have c2: "columns ?df2 = columns df"
    using assms(3) c1 by (simp only: setcol_to_numeric) simp
  have r2: "rows ?df2 =
      map (\<lambda>r. r(''latitude'' := to_numeric1 parse (r ''latitude''),
                 ''longitude'' := to_numeric1 parse (r ''longitude''))) (rows df)"
    by (simp only: setcol_to_numeric r1) (simp add: comp_def)
  have body: "load_body csv parse fs p =
     Inr \<lparr>columns = columns df,
          rows = filter (\<lambda>r. list_all (\<lambda>c. r c \<noteq> NaN) [''latitude'', ''longitude'', ''tipo_muestra''])
                   (rows ?df2)\<rparr>"
    using assms(3) c1 c2
    by (simp add: load_body_def r getcol_Inr Let_def dropna_Inr)
  show ?thesis
    unfolding load_data_def body
    by (simp add: r2 filter_map comp_def to_numeric1_Num)
qed

theorem load_data_retains_iff_witness:
  "\<exists>clean. load_data (\<lambda>_. Some raw_sample) parse_sample fs_sample ''df_transicion.csv''
             = Inr ([], Some clean) \<and>
     map (\<lambda>r. (r ''latitude'', r ''longitude'', r ''tipo_muestra'', r ''Municipio'')) (rows clean) =
       [(Num 4.5, Num (- 74), Str ''core'', NaN)]"
proof -
  have p: "parse_sample ''4.5'' = Some 4.5" "parse_sample ''north'' = None"
    by (simp_all add: parse_sample_def)
  show ?thesis
    using load_data_retains_iff [of fs_sample "''df_transicion.csv''" "''text''"
        "\<lambda>_. Some raw_sample" raw_sample parse_sample]
    by (auto simp: fs_sample_def raw_sample_def blank_def p to_numeric1_def is_num_def)
qed

section \<open>The element catalog\<close>

text \<open>
  C10. The catalog has exactly 20 column names, all different, with 20 different
  symbols. For every catalog column \<open>e\<close> the symbol shown is the text of \<open>e\<close> before its
  first underscore, and the symbol followed by \<^verbatim>\<open>_ppm2\<close> is \<open>e\<close> again; every symbol of
  the select box resolves to exactly one catalog column.
\<close>

theorem catalog_roundtrip:
  "length element_columns = 20 \<and> distinct element_columns \<and> distinct element_names \<and>
   list_all (\<lambda>e. selected_element_col (split0 e) = e) element_columns \<and>
   list_all (\<lambda>n. length (filter (\<lambda>e. e = selected_element_col n) element_columns) = 1)
     element_names"
  by (simp add: element_columns_def element_names_def split0_def selected_element_col_def)

section \<open>The filter\<close>

lemma to_numeric1_not_Str: "to_numeric1 parse c \<noteq> Str s"
  by (simp add: to_numeric1_def split: cell.splits option.splits)

lemma ge0_Inr: "\<forall>v \<in> set vs. \<forall>s. v \<noteq> Str s \<Longrightarrow> ge0 vs = Inr (map nonneg vs)"
  by (auto simp: ge0_def list_ex_iff split: cell.splits)

lemma nonneg_is_num: "nonneg c \<Longrightarrow> is_num c"
  by (simp add: nonneg_def is_num_def split: cell.splits)

lemma nonneg_Num: "nonneg c = (\<exists>x. c = Num x \<and> 0 \<le> x)"
  by (cases c) (simp_all add: nonneg_def)

lemma getcol_rec: "c \<in> set cs \<Longrightarrow> getcol \<lparr>columns = cs, rows = rs\<rparr> c = Inr (map (\<lambda>r. r c) rs)"
  by (simp add: getcol_def)

lemma setcol_rec:
  "c \<in> set cs \<Longrightarrow>
   setcol \<lparr>columns = cs, rows = rs\<rparr> c (to_numeric parse (map (\<lambda>r. r c) rs)) =
     \<lparr>columns = cs, rows = map (\<lambda>r. r(c := to_numeric1 parse (r c))) rs\<rparr>"
  using setcol_to_numeric [of "\<lparr>columns = cs, rows = rs\<rparr>" c parse] by simp

lemma dropna_rec:
  "c \<in> set cs \<Longrightarrow>
   dropna \<lparr>columns = cs, rows = rs\<rparr> [c] = Inr \<lparr>columns = cs, rows = filter (\<lambda>r. r c \<noteq> NaN) rs\<rparr>"
  using dropna_Inr [of "[c]" "\<lparr>columns = cs, rows = rs\<rparr>"] by simp

lemma select_rows_rec:
  "select_rows \<lparr>columns = cs, rows = rs\<rparr> (map P rs) = \<lparr>columns = cs, rows = filter P rs\<rparr>"
  by (simp add: select_rows_def select_rows_map)

lemma ge0_coerced:
  "ge0 (map (\<lambda>r. r e) (filter Q (map (\<lambda>r. r(e := to_numeric1 parse (r e))) rs))) =
     Inr (map (\<lambda>r. nonneg (r e)) (filter Q (map (\<lambda>r. r(e := to_numeric1 parse (r e))) rs)))"
  by (subst ge0_Inr) (auto simp: to_numeric1_not_Str)

lemma filter_spec_eq:
  "filter (\<lambda>r. r e \<noteq> NaN \<and> nonneg (r e))
      (map (\<lambda>r. r(e := to_numeric1 parse (r e))) (filter (\<lambda>r. r ''tipo_muestra'' \<in> set S) rs)) =
   filter_spec parse e S rs"
  by (auto simp: filter_spec_def filter_map comp_def to_numeric1_Num nonneg_is_num
      intro!: arg_cong [where f = "map _"] filter_cong)

lemma filter_section_eq:
  assumes t: "''tipo_muestra'' \<in> set (columns (st ! df))" and e: "e \<in> set (columns (st ! df))"
  shows "filter_section parse st df e S =
     (st @ [\<lparr>columns = columns (st ! df),
              rows = filter (\<lambda>r. r ''tipo_muestra'' \<in> set S) (rows (st ! df))\<rparr>,
            \<lparr>columns = columns (st ! df),
              rows = filter (\<lambda>r. r e \<noteq> NaN)
                 (map (\<lambda>r. r(e := to_numeric1 parse (r e)))
                    (filter (\<lambda>r. r ''tipo_muestra'' \<in> set S) (rows (st ! df))))\<rparr>,
            \<lparr>columns = columns (st ! df),
              rows = filter_spec parse e S (rows (st ! df))\<rparr>],
      Inr (length st + 2))"
proof -
  obtain cs rs where d: "st ! df = \<lparr>columns = cs, rows = rs\<rparr>"
    by (cases "st ! df") simp
  have sel: "select_rows \<lparr>columns = cs, rows = rs\<rparr> (isin (map (\<lambda>r. r ''tipo_muestra'') rs) S) =
      \<lparr>columns = cs, rows = filter (\<lambda>r. r ''tipo_muestra'' \<in> set S) rs\<rparr>"
    using select_rows_rec [of cs rs "\<lambda>r. r ''tipo_muestra'' \<in> set S"]
    by (simp add: isin_def comp_def)
  have sel2: "\<And>xs. select_rows \<lparr>columns = cs, rows = xs\<rparr> (map (\<lambda>r. nonneg (r e)) xs) =
      \<lparr>columns = cs, rows = filter (\<lambda>r. nonneg (r e)) xs\<rparr>"
    by (rule select_rows_rec)
  show ?thesis
    unfolding filter_section_def
    using t e
    by (simp add: d getcol_rec alloc_def sel nth_append setcol_rec dropna_rec ge0_coerced
        sel2 filter_spec_eq list_update_append)
qed


lemma filter_section_no_tipo:
  "''tipo_muestra'' \<notin> set (columns (st ! df)) \<Longrightarrow>
   filter_section parse st df e S = (st, Inl (KeyError ''tipo_muestra''))"
  by (simp add: filter_section_def getcol_def)

lemma filter_section_no_col:
  assumes t: "''tipo_muestra'' \<in> set (columns (st ! df))" and e: "e \<notin> set (columns (st ! df))"
  shows "fst (filter_section parse st df e S) =
     st @ [select_rows (st ! df) (isin (map (\<lambda>r. r ''tipo_muestra'') (rows (st ! df))) S),
           select_rows (st ! df) (isin (map (\<lambda>r. r ''tipo_muestra'') (rows (st ! df))) S)]"
  unfolding filter_section_def using t e
  by (simp add: getcol_def alloc_def nth_append select_rows_def)
lemma catalog_not_tipo: "e \<in> set element_columns \<Longrightarrow> e \<noteq> ''tipo_muestra''"
  by (auto simp: element_columns_def)

lemma filter_spec_rows:
  assumes "e \<noteq> ''tipo_muestra''" and "r \<in> set (filter_spec parse e S rs)"
  shows "r ''tipo_muestra'' \<in> set S \<and> (\<exists>x. r e = Num x \<and> 0 \<le> x)"
  using assms by (auto simp: filter_spec_def nonneg_Num)

text \<open>
  C1. For a stored table with the columns \<^verbatim>\<open>tipo_muestra\<close> and \<open>e\<close>, \<open>e\<close> an element
  of the catalog, and any list \<open>S\<close> of selected sample types, the filter returns a new
  frame. Its rows are \<open>filter_spec\<close>: exactly the rows of the table whose sample type is
  in \<open>S\<close> and whose value in column \<open>e\<close> coerces to a number that is not negative, each
  carrying the coerced value. So every row of the output has its sample type in \<open>S\<close> and
  a numeric value at least 0 in column \<open>e\<close>, and no row is excluded for another reason.
\<close>

theorem filter_section_correct:
  assumes "''tipo_muestra'' \<in> set (columns (st ! df))" and "e \<in> set (columns (st ! df))"
    and "e \<in> set element_columns"
  shows "\<exists>st' out. filter_section parse st df e S = (st', Inr out) \<and>
           rows (st' ! out) = filter_spec parse e S (rows (st ! df)) \<and>
           (\<forall>r \<in> set (rows (st' ! out)).
              r ''tipo_muestra'' \<in> set S \<and> (\<exists>x. r e = Num x \<and> 0 \<le> x))"
  using assms filter_spec_rows [OF catalog_not_tipo [OF assms(3)], of _ parse S "rows (st ! df)"]
  by (simp add: filter_section_eq nth_append)

theorem filter_section_correct_witness:
  "\<exists>st' out. filter_section parse_sample [clean_sample] 0 ''Li_ppm2'' [Str ''core''] = (st', Inr out) \<and>
     map (\<lambda>r. (r ''Municipio'', r ''tipo_muestra'', r ''Li_ppm2'')) (rows (st' ! out)) =
       [(Str ''Tunja'', Str ''core'', Num 5)]"
proof -
  have p: "parse_sample ''5'' = Some 5" "parse_sample ''-1'' = Some (- 1)" "parse_sample ''bad'' = None"
    by (simp_all add: parse_sample_def)
  have h1: "''tipo_muestra'' \<in> set (columns ([clean_sample] ! 0))"
    and h2: "''Li_ppm2'' \<in> set (columns ([clean_sample] ! 0))"
    by (simp_all add: clean_sample_def)
  have h3: "''Li_ppm2'' \<in> set element_columns"
    by (simp add: element_columns_def)
  obtain st' out where
    a: "filter_section parse_sample [clean_sample] 0 ''Li_ppm2'' [Str ''core''] = (st', Inr out)"
    and b: "rows (st' ! out) = filter_spec parse_sample ''Li_ppm2'' [Str ''core''] (rows ([clean_sample] ! 0))"
    using filter_section_correct [OF h1 h2 h3, of parse_sample "[Str ''core'']"] by blast
  have c: "map (\<lambda>r. (r ''Municipio'', r ''tipo_muestra'', r ''Li_ppm2''))
      (filter_spec parse_sample ''Li_ppm2'' [Str ''core''] (rows clean_sample)) =
       [(Str ''Tunja'', Str ''core'', Num 5)]"
    by (simp add: filter_spec_def clean_sample_def blank_def p to_numeric1_def is_num_def nonneg_def)
  show ?thesis
    using a b c by simp
qed

text \<open>
  C5. The filter leaves every object that was in the store before the call as it was,
  the clean table among them, on every path (also when a column is missing): the frames
  it builds and the one it overwrites are new objects behind the old ones.
\<close>

theorem filter_section_frame:
  "take (length st) (fst (filter_section parse st df e S)) = st"
proof (cases "''tipo_muestra'' \<in> set (columns (st ! df))")
  case False
  then show ?thesis by (simp add: filter_section_no_tipo)
next
  case t: True
  show ?thesis
  proof (cases "e \<in> set (columns (st ! df))")
    case True
    with t show ?thesis by (simp add: filter_section_eq)
  next
    case False
    with t show ?thesis by (simp add: filter_section_no_col)
  qed
qed

text \<open>
  C7. The filter's result depends on the table alone: run on two stores that hold the
  same table (at any positions), it yields the same frame. The rows of the result are a
  subsequence of the table's rows (with the element's column coerced): their relative
  order is the table's.
\<close>

theorem filter_section_order:
  assumes "''tipo_muestra'' \<in> set (columns (st1 ! df1))" and "e \<in> set (columns (st1 ! df1))"
    and "st2 ! df2 = st1 ! df1"
  shows "\<exists>st1' out1 st2' out2.
           filter_section parse st1 df1 e S = (st1', Inr out1) \<and>
           filter_section parse st2 df2 e S = (st2', Inr out2) \<and>
           st1' ! out1 = st2' ! out2 \<and>
           subseq (rows (st1' ! out1))
             (map (\<lambda>r. r(e := to_numeric1 parse (r e))) (rows (st1 ! df1)))"
proof -
  have "subseq (filter_spec parse e S (rows (st1 ! df1)))
     (map (\<lambda>r. r(e := to_numeric1 parse (r e))) (rows (st1 ! df1)))"
    unfolding filter_spec_def by (intro subseq_map subseq_filter_left)
  then show ?thesis
    using assms by (simp add: filter_section_eq nth_append)
qed

theorem filter_section_order_witness:
  "\<exists>st1' out1 st2' out2.
     filter_section parse_sample [clean_sample] 0 ''Li_ppm2'' [Str ''core''] = (st1', Inr out1) \<and>
     filter_section parse_sample [raw_sample, clean_sample] 1 ''Li_ppm2'' [Str ''core''] = (st2', Inr out2) \<and>
     st1' ! out1 = st2' ! out2 \<and>
     subseq (rows (st1' ! out1))
       (map (\<lambda>r. r(''Li_ppm2'' := to_numeric1 parse_sample (r ''Li_ppm2''))) (rows clean_sample))"
proof -
  have h1: "''tipo_muestra'' \<in> set (columns ([clean_sample] ! 0))"
    and h2: "''Li_ppm2'' \<in> set (columns ([clean_sample] ! 0))"
    by (simp_all add: clean_sample_def)
  have h3: "[raw_sample, clean_sample] ! 1 = [clean_sample] ! 0"
    by simp
  show ?thesis
    using filter_section_order [OF h1 h2 h3, of parse_sample "[Str ''core'']"] by simp
qed

section \<open>Missing file and repeated runs\<close>

lemma load_body_found:
  "fs p = Some txt \<Longrightarrow> load_body csv parse fs p \<noteq> Inl FileNotFoundError"
  by (auto simp: load_body_def read_csv_def getcol_def dropna_def Let_def
      split: option.splits sum.splits list.splits if_splits)

lemma load_body_missing: "fs p = None \<Longrightarrow> load_body csv parse fs p = Inl FileNotFoundError"
  by (simp add: load_body_def read_csv_def)

text \<open>
  C6. When there is no file at the path, \<open>load_data\<close> shows the error and returns
  \<^verbatim>\<open>None\<close>, and the whole run of the script shows that error and nothing else (no
  filter, no colour scale, no map). When there is a file, \<open>load_data\<close> shows nothing
  and returns a table, or ends in an exception that is not \<^verbatim>\<open>FileNotFoundError\<close>.
\<close>

theorem load_data_not_found:
  "if fs p = None
   then load_data csv parse fs p = Inr ([StError p], None) \<and>
        script csv parse cmap fs p name types = Inr [StError p]
   else (case load_data csv parse fs p of
           Inl e \<Rightarrow> e \<noteq> FileNotFoundError
         | Inr (shown, v) \<Rightarrow> shown = [] \<and> v \<noteq> None)"
proof (cases "fs p")
  case None
  then show ?thesis
    by (simp add: load_data_def script_def load_body_missing)
next
  case (Some body)
  then show ?thesis
    using load_body_found [of fs p body csv parse]
    by (auto simp: load_data_def split: sum.splits error.splits)
qed

text \<open>
  C9. Two runs of \<open>load_data\<close> on file systems that hold the same text at the path give
  the same result: the same clean table, rows in the same order.
\<close>

theorem load_data_two_runs:
  assumes "fs1 p = fs2 p"
  shows "load_data csv parse fs1 p = load_data csv parse fs2 p"
  using assms by (simp add: load_data_def load_body_def read_csv_def)

theorem load_data_two_runs_witness:
  "load_data (\<lambda>_. Some raw_sample) parse_sample fs_sample ''df_transicion.csv'' =
   load_data (\<lambda>_. Some raw_sample) parse_sample (fs_sample(''other.csv'' \<mapsto> ''junk''))
     ''df_transicion.csv''"
proof -
  have h: "fs_sample ''df_transicion.csv'' = (fs_sample(''other.csv'' \<mapsto> ''junk'')) ''df_transicion.csv''"
    by simp
  show ?thesis
    using h
    by (rule load_data_two_runs [of fs_sample "''df_transicion.csv''"
          "fs_sample(''other.csv'' \<mapsto> ''junk'')"])
qed

section \<open>The colour of the points\<close>

lemma fold_min_le: "fold min xs (x::real) \<le> x"
proof (induction xs arbitrary: x)
  case Nil
  then show ?case by simp
next
  case (Cons a xs)
  have "fold min xs (min a x) \<le> min a x" by (rule Cons.IH)
  then show ?case by simp
qed

lemma fold_max_ge: "(x::real) \<le> fold max xs x"
proof (induction xs arbitrary: x)
  case Nil
  then show ?case by simp
next
  case (Cons a xs)
  have "max a x \<le> fold max xs (max a x)" by (rule Cons.IH)
  then show ?case by simp
qed

lemma series_min_le_max:
  assumes "nums vs \<noteq> []"
  shows "\<exists>lo hi. series_min vs = Some lo \<and> series_max vs = Some hi \<and> lo \<le> hi"
proof -
  obtain x xs where n: "nums vs = x # xs"
    using assms by (cases "nums vs") auto
  have "fold min xs x \<le> fold max xs x"
    using fold_min_le [of xs x] fold_max_ge [of x xs] by linarith
  then show ?thesis
    by (simp add: series_min_def series_max_def n)
qed

lemma nums_filter_spec:
  "nums (map (\<lambda>r. r e) (filter_spec parse e S rs)) = [] \<Longrightarrow> filter_spec parse e S rs = []"
proof -
  assume a: "nums (map (\<lambda>r. r e) (filter_spec parse e S rs)) = []"
  show ?thesis
  proof (cases "filter_spec parse e S rs")
    case Nil
    then show ?thesis .
  next
    case (Cons r rest)
    then have "r \<in> set (filter_spec parse e S rs)" by simp
    then obtain x where "r e = Num x"
      by (auto simp: filter_spec_def nonneg_Num)
    with a Cons show ?thesis
      by (simp add: nums_def List.map_filter_simps)
  qed
qed

lemma make_colormap_None: "hi \<le> lo \<Longrightarrow> make_colormap name (Some lo) (Some hi) = None"
  by (simp add: make_colormap_def)

lemma point_color_blue: "hi \<le> lo \<Longrightarrow> point_color cmap cm (Some lo) (Some hi) v = ''blue''"
  by (simp add: point_color_def split: option.splits)

lemma render_Inr:
  assumes "{''latitude'', ''longitude'', ''Municipio'', selected_element_col name} \<subseteq> set (columns f)"
  shows "render cmap f name =
    Inr \<lparr>center = (series_mean (map (\<lambda>r. r ''latitude'') (rows f)),
                   series_mean (map (\<lambda>r. r ''longitude'') (rows f))),
         legend = make_colormap name (series_min (map (\<lambda>r. r (selected_element_col name)) (rows f)))
                    (series_max (map (\<lambda>r. r (selected_element_col name)) (rows f))),
         markers = map (\<lambda>row.
             \<lparr>location = (row ''latitude'', row ''longitude''),
              color = point_color cmap
                 (make_colormap name (series_min (map (\<lambda>r. r (selected_element_col name)) (rows f)))
                    (series_max (map (\<lambda>r. r (selected_element_col name)) (rows f))))
                 (series_min (map (\<lambda>r. r (selected_element_col name)) (rows f)))
                 (series_max (map (\<lambda>r. r (selected_element_col name)) (rows f)))
                 (row (selected_element_col name)),
              popup = (row ''Municipio'', row ''tipo_muestra'', row (selected_element_col name))\<rparr>)
           (rows f)\<rparr>"
  using assms by (simp add: render_def getcol_Inr Let_def)

lemma make_colormap_Some:
  "make_colormap name mn mx = Some c \<Longrightarrow> \<exists>lo hi. mn = Some lo \<and> mx = Some hi \<and> lo < hi"
  by (auto simp: make_colormap_def split: option.splits if_splits)

text \<open>
  C3. For a filtered frame with the columns the map needs, the map is drawn, and when
  the maximum of the selected element's values equals their minimum (a single row
  included) no colormap is built, so the map has no legend, every marker is \<^verbatim>\<open>'blue'\<close>
  and \<open>point_color\<close> answers \<^verbatim>\<open>'blue'\<close> for every value. A legend exists only when
  the maximum is greater than the minimum.
\<close>

theorem degenerate_scale_blue:
  assumes "{''latitude'', ''longitude'', ''Municipio'', selected_element_col name} \<subseteq> set (columns f)"
  shows "\<exists>m. render cmap f name = Inr m \<and>
     (series_max (map (\<lambda>r. r (selected_element_col name)) (rows f)) =
      series_min (map (\<lambda>r. r (selected_element_col name)) (rows f)) \<longrightarrow>
        legend m = None \<and> (\<forall>k \<in> set (markers m). color k = ''blue'') \<and>
        (\<forall>v. point_color cmap (legend m)
               (series_min (map (\<lambda>r. r (selected_element_col name)) (rows f)))
               (series_max (map (\<lambda>r. r (selected_element_col name)) (rows f))) v = ''blue'')) \<and>
     (legend m \<noteq> None \<longrightarrow>
        (\<exists>lo hi. series_min (map (\<lambda>r. r (selected_element_col name)) (rows f)) = Some lo \<and>
                 series_max (map (\<lambda>r. r (selected_element_col name)) (rows f)) = Some hi \<and> lo < hi))"
proof -
  let ?ser = "map (\<lambda>r. r (selected_element_col name)) (rows f)"
  have eq: "series_max ?ser = series_min ?ser \<Longrightarrow>
      make_colormap name (series_min ?ser) (series_max ?ser) = None \<and>
      (\<forall>v. point_color cmap (make_colormap name (series_min ?ser) (series_max ?ser))
             (series_min ?ser) (series_max ?ser) v = ''blue'')"
    by (cases "series_min ?ser") (simp_all add: make_colormap_def point_color_def)
  show ?thesis
    unfolding render_Inr [OF assms]
    using eq make_colormap_Some [of name "series_min ?ser" "series_max ?ser"]
    by auto
qed

theorem degenerate_scale_blue_witness:
  "\<exists>m. render cmap_sample single_sample ''Li'' = Inr m \<and> legend m = None \<and>
       map color (markers m) = [''blue'']"
proof -
  have h: "{''latitude'', ''longitude'', ''Municipio'', selected_element_col ''Li''}
      \<subseteq> set (columns single_sample)"
    by (simp add: single_sample_def selected_element_col_def)
  have s: "series_max (map (\<lambda>r. r (selected_element_col ''Li'')) (rows single_sample)) =
      series_min (map (\<lambda>r. r (selected_element_col ''Li'')) (rows single_sample))"
    by (simp add: single_sample_def selected_element_col_def series_max_def series_min_def
        nums_def List.map_filter_simps blank_def)
  have l: "length (rows single_sample) = 1"
    by (simp add: single_sample_def)
  obtain m where a: "render cmap_sample single_sample ''Li'' = Inr m"
    and b: "legend m = None" and c: "\<forall>k \<in> set (markers m). color k = ''blue''"
    using degenerate_scale_blue [OF h, of cmap_sample] s by blast
  have "length (markers m) = 1"
    using a l by (simp add: render_Inr [OF h]) auto
  then obtain k where "markers m = [k]"
    by (cases "markers m") auto
  with a b c show ?thesis by auto
qed

text \<open>
  C4, as the claim states it, fails: given a minimum of 2 and a maximum of 1, lines 105
  to 113 raise nothing. No colormap is built and the point is \<^verbatim>\<open>'blue'\<close>, as in the
  case of equal ends.
\<close>

theorem invalid_range_counterexample:
  "make_colormap ''Li'' (Some 2) (Some 1) = None \<and>
   point_color cmap_sample (make_colormap ''Li'' (Some 2) (Some 1)) (Some 2) (Some 1) (Num 2) = ''blue''"
  by (simp add: make_colormap_def point_color_def)

text \<open>
  C4, amended. On a table with the columns \<^verbatim>\<open>tipo_muestra\<close> and \<open>e\<close> the filter
  returns a frame, and when that frame has a row the minimum and the maximum of its
  column \<open>e\<close> exist and the minimum is at most the maximum. Were the maximum below the
  minimum, the script would raise no error: it would build no colormap and colour every
  point \<^verbatim>\<open>'blue'\<close>.
\<close>

theorem range_ordered_fallback:
  assumes "''tipo_muestra'' \<in> set (columns (st ! df))" and "e \<in> set (columns (st ! df))"
  shows "\<exists>st' out. filter_section parse st df e S = (st', Inr out) \<and>
     (rows (st' ! out) \<noteq> [] \<longrightarrow>
        (\<exists>lo hi. series_min (map (\<lambda>r. r e) (rows (st' ! out))) = Some lo \<and>
                 series_max (map (\<lambda>r. r e) (rows (st' ! out))) = Some hi \<and> lo \<le> hi)) \<and>
     (\<forall>lo hi cm v. hi < lo \<longrightarrow>
        make_colormap name (Some lo) (Some hi) = None \<and>
        point_color cmap cm (Some lo) (Some hi) v = ''blue'')"
proof -
  let ?out = "filter_spec parse e S (rows (st ! df))"
  have a: "?out \<noteq> [] \<longrightarrow>
      (\<exists>lo hi. series_min (map (\<lambda>r. r e) ?out) = Some lo \<and>
               series_max (map (\<lambda>r. r e) ?out) = Some hi \<and> lo \<le> hi)"
    using nums_filter_spec [of e parse S "rows (st ! df)"]
      series_min_le_max [of "map (\<lambda>r. r e) ?out"] by blast
  have b: "\<forall>lo hi cm v. hi < lo \<longrightarrow>
        make_colormap name (Some lo) (Some hi) = None \<and>
        point_color cmap cm (Some lo) (Some hi) v = ''blue''"
    by (simp add: make_colormap_None point_color_blue)
  show ?thesis
    using a b by (simp add: filter_section_eq [OF assms] nth_append)
qed

theorem range_ordered_fallback_witness:
  "\<exists>st' out. filter_section parse_sample [clean_sample] 0 ''Li_ppm2'' [Str ''core''] = (st', Inr out) \<and>
     rows (st' ! out) \<noteq> [] \<and>
     (\<exists>lo hi. series_min (map (\<lambda>r. r ''Li_ppm2'') (rows (st' ! out))) = Some lo \<and>
              series_max (map (\<lambda>r. r ''Li_ppm2'') (rows (st' ! out))) = Some hi \<and> lo \<le> hi) \<and>
     make_colormap ''Li'' (Some 2) (Some 1) = None \<and>
     point_color cmap_sample None (Some 2) (Some 1) (Num 2) = ''blue''"
proof -
  have p: "parse_sample ''5'' = Some 5" "parse_sample ''-1'' = Some (- 1)" "parse_sample ''bad'' = None"
    by (simp_all add: parse_sample_def)
  have h1: "''tipo_muestra'' \<in> set (columns ([clean_sample] ! 0))"
    and h2: "''Li_ppm2'' \<in> set (columns ([clean_sample] ! 0))"
    by (simp_all add: clean_sample_def)
  have ne: "filter_spec parse_sample ''Li_ppm2'' [Str ''core''] (rows clean_sample) \<noteq> []"
    by (simp add: filter_spec_def clean_sample_def blank_def p to_numeric1_def is_num_def nonneg_def)
  have eq: "filter_section parse_sample [clean_sample] 0 ''Li_ppm2'' [Str ''core''] = (st', Inr out) \<Longrightarrow>
      rows (st' ! out) = filter_spec parse_sample ''Li_ppm2'' [Str ''core''] (rows clean_sample)" for st' out
    by (auto simp: filter_section_eq [OF h1 h2] nth_append)
  have lt: "(1::real) < 2" by simp
  obtain st' out where
    a: "filter_section parse_sample [clean_sample] 0 ''Li_ppm2'' [Str ''core''] = (st', Inr out)"
    and b: "rows (st' ! out) \<noteq> [] \<longrightarrow>
        (\<exists>lo hi. series_min (map (\<lambda>r. r ''Li_ppm2'') (rows (st' ! out))) = Some lo \<and>
                 series_max (map (\<lambda>r. r ''Li_ppm2'') (rows (st' ! out))) = Some hi \<and> lo \<le> hi)"
    and c: "\<forall>lo hi cm v. hi < lo \<longrightarrow>
        make_colormap ''Li'' (Some lo) (Some hi) = None \<and>
        point_color cmap_sample cm (Some lo) (Some hi) v = ''blue''"
    using range_ordered_fallback [OF h1 h2, of parse_sample "[Str ''core'']" "''Li''" cmap_sample]
    by blast
  have n: "rows (st' ! out) \<noteq> []"
    using eq [OF a] ne by simp
  have d: "make_colormap ''Li'' (Some 2) (Some 1) = None \<and>
     point_color cmap_sample None (Some 2) (Some 1) (Num 2) = ''blue''"
    using c lt by blast
  show ?thesis
    using a b n d by blast
qed

section \<open>The gradient\<close>










end
